theory Spec2Isabelle
  imports Complex_Main "HOL-Library.Multiset"
begin

section \<open>Course Selling API: schemas, store and operations\<close>

text \<open>
  The theory follows \<^verbatim>\<open>src/schemas.py\<close> and \<^verbatim>\<open>src/main.py\<close>.
  A pydantic model is a record, a collection of the document store is the list of its
  documents in insertion order, and every endpoint function takes the store \<open>db\<close> and,
  when it writes, returns the store it leaves behind together with its result.
  An exception is a value of type \<open>error\<close> on the left of a sum.

  Python floats (\<open>price\<close>, \<open>amount\<close>, \<open>revenue\<close>) are values of a type \<open>'f\<close> of which
  only \<open>0\<close>, \<open>+\<close> and \<open>\<le>\<close> are used, with no law assumed of them: every statement holds
  for whatever float arithmetic does. The builtin \<open>round(x, 2)\<close> is a parameter \<open>round2\<close>
  of the one function that calls it. Concrete examples are evaluated over the rationals.
\<close>

subsection \<open>Errors\<close>

text \<open>
  \<open>HTTPException\<close> is raised by the endpoint functions themselves.
  \<open>RequestValidationError\<close> is what the framework raises when a request body does not
  satisfy the schema of the endpoint's parameter (status 422).
  \<open>ValidationError\<close> (a pydantic model built inside an endpoint function rejects its
  arguments) and \<open>InvalidId\<close> (raised by \<open>bson.ObjectId\<close>) are handled nowhere in
  \<^verbatim>\<open>main.py\<close> unless a \<^verbatim>\<open>try\<close> block says so; an exception that leaves an endpoint
  function is answered with status 500.
\<close>

datatype error =
    HTTPException nat string
  | RequestValidationError
  | ValidationError
  | InvalidId

fun status_code :: "error \<Rightarrow> nat" where
  "status_code (HTTPException code detail) = code"
| "status_code RequestValidationError = 422"
| "status_code ValidationError = 500"
| "status_code InvalidId = 500"

subsection \<open>Store identifiers\<close>

text \<open>
  \<open>bson.ObjectId\<close> is a library type. Built from a \<^verbatim>\<open>str\<close> it accepts 24 hexadecimal
  digits and raises \<open>InvalidId\<close> otherwise; \<^verbatim>\<open>str\<close> of an identifier is its 24 digits
  in lower case. An identifier is kept as that lower-case string.
\<close>

datatype oid = Oid string

fun str_oid :: "oid \<Rightarrow> string" where
  "str_oid (Oid s) = s"

definition hexdigit :: "char \<Rightarrow> bool" where
  "hexdigit c = List.member ''0123456789abcdefABCDEF'' c"

definition lower_hex :: "char \<Rightarrow> char" where
  "lower_hex c =
     (if c = CHR ''A'' then CHR ''a'' else if c = CHR ''B'' then CHR ''b''
      else if c = CHR ''C'' then CHR ''c'' else if c = CHR ''D'' then CHR ''d''
      else if c = CHR ''E'' then CHR ''e'' else if c = CHR ''F'' then CHR ''f''
      else c)"

definition ObjectId :: "string \<Rightarrow> error + oid" where
  "ObjectId s =
     (if length s = 24 \<and> list_all hexdigit s then Inr (Oid (map lower_hex s))
      else Inl InvalidId)"

subsection \<open>Schemas (\<^verbatim>\<open>schemas.py\<close>)\<close>

type_synonym datetime = nat

record 'f Course =
  title :: string
  subtitle :: "string option"
  description :: "string option"
  price :: 'f
  thumbnail_url :: "string option"
  category :: "string option"
  level :: "string option"
  published :: bool
  tags :: "string list option"

record Lesson =
  course_id :: string
  title :: string
  content :: "string option"
  video_url :: "string option"
  order :: int
  free_preview :: bool

record 'f Order =
  course_id :: string
  buyer_name :: string
  buyer_email :: string
  amount :: 'f
  status :: string

text \<open>
  The constraints of the schemas beyond the types of the fields: \<open>ge=0\<close> on
  \<open>Course.price\<close>, \<open>Lesson.order\<close> and \<open>Order.amount\<close>. No field carries a length
  constraint. Pydantic checks them whenever a model is built, also on the way out
  (\<open>CourseOut(**d)\<close>, \<open>LessonOut(**d)\<close>) and inside \<open>create_order\<close> (\<open>Order(...)\<close>).
\<close>

definition Course_valid :: "('f::{zero,ord}, 'z) Course_scheme \<Rightarrow> bool" where
  "Course_valid c = (0 \<le> price c)"

definition Lesson_valid :: "'z Lesson_scheme \<Rightarrow> bool" where
  "Lesson_valid l = (0 \<le> order l)"

definition Order_valid :: "('f::{zero,ord}, 'z) Order_scheme \<Rightarrow> bool" where
  "Order_valid ord = (0 \<le> amount ord)"

subsection \<open>Helper models of \<^verbatim>\<open>main.py\<close>\<close>

record 'f CourseOut = "'f Course" +
  id' :: string

record LessonOut = Lesson +
  id' :: string

record OrderIn =
  course_id :: string
  buyer_name :: string
  buyer_email :: string

record 'f AdminSummary =
  total_courses :: int
  published_courses :: int
  total_lessons :: int
  total_sales :: int
  revenue :: 'f

subsection \<open>The document store\<close>

text \<open>
  A document is the dump of a model together with the identifier \<open>_id\<close> that the store
  gave it. \<open>update_course\<close> adds the field \<open>updated_at\<close>, absent until then.
  Every document that \<^verbatim>\<open>main.py\<close> writes carries all the fields of its schema, so
  reading a field with \<open>d.get(field, default)\<close> is reading the field of the record.
  The model describes a process whose store connection has been established
  (\<open>db\<close> is not \<open>None\<close>) and whose round trips to the store succeed.
\<close>

record 'a document =
  oid :: oid
  data :: 'a
  updated_at :: "datetime option"

record 'f Database =
  courses :: "'f Course document list"
  lessons :: "Lesson document list"
  orders :: "'f Order document list"

text \<open>
  The collection methods of the store client that \<^verbatim>\<open>main.py\<close> calls. A query document
  is a predicate on documents: \<open>{"_id": obj_id}\<close> is \<open>by_id obj_id\<close>, \<open>{}\<close> is
  \<open>\<lambda>d. True\<close>. \<open>find_one\<close> returns the first match, \<open>update_one\<close> and \<open>delete_one\<close>
  act on the first match and report how many documents they matched or deleted.
\<close>

definition by_id :: "oid \<Rightarrow> 'a document \<Rightarrow> bool" where
  "by_id obj_id d = (oid d = obj_id)"

fun find_one :: "'a document list \<Rightarrow> ('a document \<Rightarrow> bool) \<Rightarrow> 'a document option" where
  "find_one [] q = None"
| "find_one (d # ds) q = (if q d then Some d else find_one ds q)"

fun update_one ::
  "'a document list \<Rightarrow> ('a document \<Rightarrow> bool) \<Rightarrow> ('a document \<Rightarrow> 'a document)
     \<Rightarrow> nat \<times> 'a document list" where
  "update_one [] q upd = (0, [])"
| "update_one (d # ds) q upd =
     (if q d then (1, upd d # ds)
      else (case update_one ds q upd of (matched_count, ds') \<Rightarrow> (matched_count, d # ds')))"

fun delete_one :: "'a document list \<Rightarrow> ('a document \<Rightarrow> bool) \<Rightarrow> nat \<times> 'a document list" where
  "delete_one [] q = (0, [])"
| "delete_one (d # ds) q =
     (if q d then (1, ds)
      else (case delete_one ds q of (deleted_count, ds') \<Rightarrow> (deleted_count, d # ds')))"

definition count_documents :: "'a document list \<Rightarrow> ('a document \<Rightarrow> bool) \<Rightarrow> int" where
  "count_documents coll q = int (length (filter q coll))"

definition find_docs :: "'a document list \<Rightarrow> ('a document \<Rightarrow> bool) \<Rightarrow> 'a document list" where
  "find_docs coll q = filter q coll"

text \<open>
  Modelled from the spec: \<open>create_document(collection_name, record)\<close> of
  \<^verbatim>\<open>database.py\<close>, which is not among the sources. It serializes the record to a
  document, inserts it into the named collection (one insert) and returns the newly
  assigned identifier rendered as a string. The collection is passed in place of its
  name, and the identifier that the store assigns is the argument \<open>new_id\<close>.
\<close>

definition create_document ::
  "'a document list \<Rightarrow> oid \<Rightarrow> 'a \<Rightarrow> 'a document list \<times> string" where
  "create_document coll new_id record =
     (coll @ [\<lparr>oid = new_id, data = record, updated_at = None\<rparr>], str_oid new_id)"

text \<open>
  Modelled from the spec: \<open>get_documents(collection_name, filter)\<close> of
  \<^verbatim>\<open>database.py\<close>, which is not among the sources. Given a mapping of field name to
  exact-match value (the empty mapping means all), it returns the materialized sequence
  of the matching documents in the store's insertion order. A filter is a list of pairs
  of a field (its selector) and the value it must equal. The callers in \<^verbatim>\<open>main.py\<close>
  take \<open>_id\<close> out of every document returned (\<open>d.pop("_id")\<close>) and render it as the
  string field \<open>id\<close> themselves, so the documents are returned as stored, with \<open>_id\<close>.
\<close>

definition get_documents ::
  "'a document list \<Rightarrow> (('a \<Rightarrow> 'v) \<times> 'v) list \<Rightarrow> 'a document list" where
  "get_documents coll filter_dict =
     filter (\<lambda>d. list_all (\<lambda>(field, v). field (data d) = v) filter_dict) coll"

subsection \<open>Request bodies\<close>

text \<open>
  The framework builds the parameter \<open>course: Course\<close> of an endpoint from the JSON body
  of the request and answers 422 when the body violates the schema. A body is modelled
  with its fields well typed, each of them present (\<open>Some\<close>) or absent (\<open>None\<close>); an
  absent field takes the default of the schema, and a field declared with \<open>...\<close> has
  none. A key that the schema does not declare is ignored: \<open>OrderIn\<close> declares no
  \<open>amount\<close>, and \<open>OrderBody\<close> carries one to stand for what a caller may add.
\<close>

record 'f CourseBody =
  title :: "string option"
  subtitle :: "string option option"
  description :: "string option option"
  price :: "'f option"
  thumbnail_url :: "string option option"
  category :: "string option option"
  level :: "string option option"
  published :: "bool option"
  tags :: "string list option option"

record 'f OrderBody =
  course_id :: "string option"
  buyer_name :: "string option"
  buyer_email :: "string option"
  amount :: "'f option"

definition field_or :: "'a \<Rightarrow> 'a option \<Rightarrow> 'a" where
  "field_or dflt given = (case given of None \<Rightarrow> dflt | Some v \<Rightarrow> v)"

definition Course_model_validate :: "('f::{zero,ord}) CourseBody \<Rightarrow> error + 'f Course" where
  "Course_model_validate body =
     (case CourseBody.title body of
        None \<Rightarrow> Inl RequestValidationError
      | Some t \<Rightarrow>
         (case CourseBody.price body of
            None \<Rightarrow> Inl RequestValidationError
          | Some p \<Rightarrow>
             if 0 \<le> p then
               Inr \<lparr>Course.title = t,
                    subtitle = field_or None (CourseBody.subtitle body),
                    description = field_or None (CourseBody.description body),
                    price = p,
                    thumbnail_url = field_or None (CourseBody.thumbnail_url body),
                    category = field_or None (CourseBody.category body),
                    level = field_or None (CourseBody.level body),
                    published = field_or False (CourseBody.published body),
                    tags = field_or (Some []) (CourseBody.tags body)\<rparr>
             else Inl RequestValidationError))"

definition OrderIn_model_validate :: "'f OrderBody \<Rightarrow> error + OrderIn" where
  "OrderIn_model_validate body =
     (case (OrderBody.course_id body, OrderBody.buyer_name body, OrderBody.buyer_email body) of
        (Some c, Some n, Some e) \<Rightarrow>
          Inr \<lparr>OrderIn.course_id = c, OrderIn.buyer_name = n, OrderIn.buyer_email = e\<rparr>
      | _ \<Rightarrow> Inl RequestValidationError)"

subsection \<open>Courses\<close>

text \<open>
  A parameter or local variable whose name is also the name of a field is renamed
  (\<open>course_id\<close> to \<open>cid\<close>, \<open>data\<close> to \<open>dump\<close>, \<open>amount\<close> to \<open>amt\<close>).
  \<open>collect\<close> is the loop \<open>for d in docs: result.append(Model(**d))\<close>: it stops at the
  first document the model rejects.
\<close>

fun collect :: "('a \<Rightarrow> error + 'b) \<Rightarrow> 'a list \<Rightarrow> error + 'b list" where
  "collect build [] = Inr []"
| "collect build (d # ds) =
     (case build d of
        Inl e \<Rightarrow> Inl e
      | Inr x \<Rightarrow> (case collect build ds of Inl e \<Rightarrow> Inl e | Inr xs \<Rightarrow> Inr (x # xs)))"

text \<open>
  \<open>d["id"] = str(d.pop("_id"))\<close> followed by \<open>CourseOut(**d)\<close>: the document with its
  identifier as the string field \<open>id\<close>, checked against the schema. The key
  \<open>updated_at\<close>, which the schema does not declare, is ignored.
\<close>

definition course_with_id :: "'f Course document \<Rightarrow> 'f CourseOut" where
  "course_with_id d = Course.extend (data d) (CourseOut.fields (str_oid (oid d)))"

definition lesson_with_id :: "Lesson document \<Rightarrow> LessonOut" where
  "lesson_with_id d = Lesson.extend (data d) (LessonOut.fields (str_oid (oid d)))"

definition CourseOut_of :: "('f::{zero,ord}) Course document \<Rightarrow> error + 'f CourseOut" where
  "CourseOut_of d =
     (if Course_valid (course_with_id d) then Inr (course_with_id d) else Inl ValidationError)"

definition LessonOut_of :: "Lesson document \<Rightarrow> error + LessonOut" where
  "LessonOut_of d =
     (if Lesson_valid (lesson_with_id d) then Inr (lesson_with_id d) else Inl ValidationError)"

type_synonym response = "(string \<times> string) list"

definition create_course ::
  "'f Database \<Rightarrow> oid \<Rightarrow> 'f Course \<Rightarrow> 'f Database \<times> (error + response)" where
  "create_course db new_id course =
     (case create_document (courses db) new_id course of
        (coll, inserted_id) \<Rightarrow> (db\<lparr>courses := coll\<rparr>, Inr [(''id'', inserted_id)]))"

definition request_create_course ::
  "('f::{zero,ord}) Database \<Rightarrow> oid \<Rightarrow> 'f CourseBody \<Rightarrow> 'f Database \<times> (error + response)" where
  "request_create_course db new_id body =
     (case Course_model_validate body of
        Inl e \<Rightarrow> (db, Inl e)
      | Inr course \<Rightarrow> create_course db new_id course)"

definition list_courses ::
  "('f::{zero,ord}) Database \<Rightarrow> bool option \<Rightarrow> error + 'f CourseOut list" where
  "list_courses db published_arg =
     (let filter_query =
            (case published_arg of None \<Rightarrow> [] | Some p \<Rightarrow> [(Course.published, p)]);
          docs = get_documents (courses db) filter_query
      in collect CourseOut_of docs)"

definition get_course :: "('f::{zero,ord}) Database \<Rightarrow> string \<Rightarrow> error + 'f CourseOut" where
  "get_course db cid =
     (case ObjectId cid of
        Inl e \<Rightarrow> Inl (HTTPException 400 ''Invalid course id'')
      | Inr obj_id \<Rightarrow>
         (case find_one (courses db) (by_id obj_id) of
            None \<Rightarrow> Inl (HTTPException 404 ''Course not found'')
          | Some doc \<Rightarrow> CourseOut_of doc))"

text \<open>
  \<open>{"$set": update_data}\<close>, where \<open>update_data\<close> is \<open>course.model_dump()\<close>, all nine
  fields of the model, and \<open>updated_at\<close>, the time \<open>now\<close> of the call.
\<close>

definition set_update_data :: "'f Course \<Rightarrow> datetime \<Rightarrow> 'f Course document \<Rightarrow> 'f Course document" where
  "set_update_data course now d =
     d\<lparr>data := (data d)\<lparr>Course.title := Course.title course,
                          Course.subtitle := Course.subtitle course,
                          Course.description := Course.description course,
                          Course.price := Course.price course,
                          Course.thumbnail_url := Course.thumbnail_url course,
                          Course.category := Course.category course,
                          Course.level := Course.level course,
                          Course.published := Course.published course,
                          Course.tags := Course.tags course\<rparr>,
       updated_at := Some now\<rparr>"

definition update_course ::
  "'f Database \<Rightarrow> datetime \<Rightarrow> string \<Rightarrow> 'f Course \<Rightarrow> 'f Database \<times> (error + response)" where
  "update_course db now cid course =
     (case ObjectId cid of
        Inl e \<Rightarrow> (db, Inl (HTTPException 400 ''Invalid course id''))
      | Inr obj_id \<Rightarrow>
         (case update_one (courses db) (by_id obj_id) (set_update_data course now) of
            (matched_count, coll) \<Rightarrow>
              if matched_count = 0
              then (db\<lparr>courses := coll\<rparr>, Inl (HTTPException 404 ''Course not found''))
              else (db\<lparr>courses := coll\<rparr>, Inr [(''status'', ''ok'')])))"

definition request_update_course ::
  "('f::{zero,ord}) Database \<Rightarrow> datetime \<Rightarrow> string \<Rightarrow> 'f CourseBody
     \<Rightarrow> 'f Database \<times> (error + response)" where
  "request_update_course db now cid body =
     (case Course_model_validate body of
        Inl e \<Rightarrow> (db, Inl e)
      | Inr course \<Rightarrow> update_course db now cid course)"

definition delete_course :: "'f Database \<Rightarrow> string \<Rightarrow> 'f Database \<times> (error + response)" where
  "delete_course db cid =
     (case ObjectId cid of
        Inl e \<Rightarrow> (db, Inl (HTTPException 400 ''Invalid course id''))
      | Inr obj_id \<Rightarrow>
         (case delete_one (courses db) (by_id obj_id) of
            (deleted_count, coll) \<Rightarrow>
              if deleted_count = 0
              then (db\<lparr>courses := coll\<rparr>, Inl (HTTPException 404 ''Course not found''))
              else (db\<lparr>courses := coll\<rparr>, Inr [(''status'', ''ok'')])))"

subsection \<open>Lessons\<close>

definition create_lesson ::
  "'f Database \<Rightarrow> oid \<Rightarrow> string \<Rightarrow> Lesson \<Rightarrow> 'f Database \<times> (error + response)" where
  "create_lesson db new_id cid lesson =
     (let dump = lesson\<lparr>Lesson.course_id := cid\<rparr>
      in case create_document (lessons db) new_id dump of
           (coll, lesson_id) \<Rightarrow> (db\<lparr>lessons := coll\<rparr>, Inr [(''id'', lesson_id)]))"

text \<open>
  \<open>result.sort(key=lambda x: x.order)\<close>: the builtin sort is ascending and stable, which
  determines its result; \<open>sort_key\<close> is such a sort.
\<close>

definition list_lessons :: "'f Database \<Rightarrow> string \<Rightarrow> error + LessonOut list" where
  "list_lessons db cid =
     (let docs = get_documents (lessons db) [(Lesson.course_id, cid)]
      in case collect LessonOut_of docs of
           Inl e \<Rightarrow> Inl e
         | Inr result \<Rightarrow> Inr (sort_key Lesson.order result))"

subsection \<open>Orders and the admin summary\<close>

definition create_order ::
  "('f::{zero,ord}) Database \<Rightarrow> oid \<Rightarrow> OrderIn \<Rightarrow> 'f Database \<times> (error + response)" where
  "create_order db new_id order_in =
     (case ObjectId (OrderIn.course_id order_in) of
        Inl e \<Rightarrow> (db, Inl e)
      | Inr obj_id \<Rightarrow>
         (case find_one (courses db) (by_id obj_id) of
            None \<Rightarrow> (db, Inl (HTTPException 404 ''Course not found''))
          | Some course \<Rightarrow>
             (let amt = Course.price (data course);
                  order_doc = \<lparr>Order.course_id = OrderIn.course_id order_in,
                               Order.buyer_name = OrderIn.buyer_name order_in,
                               Order.buyer_email = OrderIn.buyer_email order_in,
                               Order.amount = amt,
                               status = ''paid''\<rparr>
              in if Order_valid order_doc
                 then (case create_document (orders db) new_id order_doc of
                         (coll, order_id) \<Rightarrow>
                           (db\<lparr>orders := coll\<rparr>, Inr [(''id'', order_id), (''status'', ''paid'')]))
                 else (db, Inl ValidationError))))"

definition request_create_order ::
  "('f::{zero,ord}) Database \<Rightarrow> oid \<Rightarrow> 'f OrderBody \<Rightarrow> 'f Database \<times> (error + response)" where
  "request_create_order db new_id body =
     (case OrderIn_model_validate body of
        Inl e \<Rightarrow> (db, Inl e)
      | Inr order_in \<Rightarrow> create_order db new_id order_in)"

text \<open>The loop \<open>for o in ...: revenue += float(o.get("amount", 0))\<close>.\<close>

fun add_amounts :: "('f::plus) \<Rightarrow> 'f Order document list \<Rightarrow> 'f" where
  "add_amounts acc [] = acc"
| "add_amounts acc (o1 # os) = add_amounts (acc + Order.amount (data o1)) os"

definition admin_summary ::
  "(('f::{zero,plus}) \<Rightarrow> 'f) \<Rightarrow> 'f Database \<Rightarrow> 'f AdminSummary" where
  "admin_summary round2 db =
     (let n_courses = count_documents (courses db) (\<lambda>d. True);
          n_published = count_documents (courses db) (\<lambda>d. Course.published (data d) = True);
          n_lessons = count_documents (lessons db) (\<lambda>d. True);
          n_sales = count_documents (orders db) (\<lambda>d. status (data d) = ''paid'');
          total = add_amounts 0 (find_docs (orders db) (\<lambda>d. status (data d) = ''paid''))
      in \<lparr>total_courses = n_courses,
          published_courses = n_published,
          total_lessons = n_lessons,
          total_sales = n_sales,
          revenue = round2 total\<rparr>)"

text \<open>
  \<open>round2_exact\<close> is \<open>round(x, 2)\<close> on exact values: to the nearest multiple of
  \<open>1/100\<close>, a tie going to the even one. It is used in examples only.
\<close>

definition round2_exact :: "rat \<Rightarrow> rat" where
  "round2_exact x =
     (let n = \<lfloor>x * 100\<rfloor>; r = x * 100 - of_int n
      in if r < 1/2 then of_int n / 100
         else if 1/2 < r then of_int (n + 1) / 100
         else if even n then of_int n / 100 else of_int (n + 1) / 100)"

subsection \<open>Documents that satisfy their schema\<close>

definition wf_db :: "('f::{zero,ord}) Database \<Rightarrow> bool" where
  "wf_db db =
     (list_all (\<lambda>d. Course_valid (data d)) (courses db) \<and>
      list_all (\<lambda>d. Lesson_valid (data d)) (lessons db) \<and>
      list_all (\<lambda>d. Order_valid (data d)) (orders db))"

subsection \<open>An example store\<close>

text \<open>
  Two courses, one of them published, three lessons of the first course created with
  the order values 3, 1, 2, and two paid orders of 10.00 and 15.50.
\<close>

definition id_a :: string where
  "id_a = ''65a0000000000000000000a1''"

definition id_b :: string where
  "id_b = ''65a0000000000000000000b2''"

definition id_unknown :: string where
  "id_unknown = ''65A0000000000000000000FF''"

definition course_a :: "rat Course" where
  "course_a =
     \<lparr>Course.title = ''Logic'', subtitle = Some ''An introduction'', description = None,
      price = 4999 / 100, thumbnail_url = None, category = Some ''math'', level = None,
      published = True, tags = Some [''logic'']\<rparr>"

definition course_b :: "rat Course" where
  "course_b =
     \<lparr>Course.title = ''Draft'', subtitle = None, description = None,
      price = 0, thumbnail_url = None, category = None, level = None,
      published = False, tags = Some []\<rparr>"

definition lesson_n :: "int \<Rightarrow> Lesson" where
  "lesson_n n =
     \<lparr>Lesson.course_id = ''from the body'', Lesson.title = ''Lesson'', content = None,
      video_url = None, order = n, free_preview = False\<rparr>"

definition order_of :: "rat \<Rightarrow> rat Order" where
  "order_of a =
     \<lparr>Order.course_id = id_a, Order.buyer_name = ''Ada'',
      Order.buyer_email = ''ada@example.org'', Order.amount = a, status = ''paid''\<rparr>"

definition order_in_a :: OrderIn where
  "order_in_a =
     \<lparr>OrderIn.course_id = id_a, OrderIn.buyer_name = ''Ada'',
      OrderIn.buyer_email = ''ada@example.org''\<rparr>"

definition empty_db :: "rat Database" where
  "empty_db = \<lparr>courses = [], lessons = [], orders = []\<rparr>"

definition example_db :: "rat Database" where
  "example_db =
     \<lparr>courses =
        [\<lparr>oid = Oid id_a, data = course_a, updated_at = None\<rparr>,
         \<lparr>oid = Oid id_b, data = course_b, updated_at = None\<rparr>],
      lessons =
        [\<lparr>oid = Oid ''65a000000000000000000101'',
          data = (lesson_n 3)\<lparr>Lesson.course_id := id_a\<rparr>, updated_at = None\<rparr>,
         \<lparr>oid = Oid ''65a000000000000000000102'',
          data = (lesson_n 1)\<lparr>Lesson.course_id := id_a\<rparr>, updated_at = None\<rparr>,
         \<lparr>oid = Oid ''65a000000000000000000103'',
          data = (lesson_n 2)\<lparr>Lesson.course_id := id_a\<rparr>, updated_at = None\<rparr>],
      orders =
        [\<lparr>oid = Oid ''65a000000000000000000201'', data = order_of 10, updated_at = None\<rparr>,
         \<lparr>oid = Oid ''65a000000000000000000202'', data = order_of (31 / 2),
          updated_at = None\<rparr>]\<rparr>"

text \<open>The lessons of the example store, created one after the other in an empty store.\<close>

definition created_lessons_db :: "rat Database" where
  "created_lessons_db =
     fst (create_lesson
       (fst (create_lesson
         (fst (create_lesson empty_db (Oid ''65a000000000000000000101'') id_a (lesson_n 3)))
         (Oid ''65a000000000000000000102'') id_a (lesson_n 1)))
       (Oid ''65a000000000000000000103'') id_a (lesson_n 2))"

text \<open>A body that gives the two required fields of a course and nothing else.\<close>

definition body_of :: "string \<Rightarrow> rat \<Rightarrow> rat CourseBody" where
  "body_of t p =
     \<lparr>CourseBody.title = Some t, CourseBody.subtitle = None, CourseBody.description = None,
      CourseBody.price = Some p, CourseBody.thumbnail_url = None, CourseBody.category = None,
      CourseBody.level = None, CourseBody.published = None, CourseBody.tags = None\<rparr>"

lemmas example_defs =
  example_db_def empty_db_def course_a_def course_b_def id_a_def id_b_def id_unknown_def
  lesson_n_def order_of_def order_in_a_def body_of_def

section \<open>Properties\<close>

subsection \<open>The store client\<close>

lemma find_one_None_iff: "find_one ds q = None \<longleftrightarrow> (\<forall>d\<in>set ds. \<not> q d)"
  by (induction ds) auto

lemma find_one_SomeD: "find_one ds q = Some d \<Longrightarrow> d \<in> set ds \<and> q d"
  by (induction ds) (auto split: if_splits)

lemma find_one_split:
  "find_one ds q = Some d \<Longrightarrow> \<exists>pre post. ds = pre @ d # post \<and> (\<forall>x\<in>set pre. \<not> q x) \<and> q d"
proof (induction ds)
  case Nil
  then show ?case by simp
next
  case (Cons a ds)
  show ?case
  proof (cases "q a")
    case True
    with Cons.prems have "a = d" by simp
    with True have "a # ds = [] @ d # ds \<and> (\<forall>x\<in>set []. \<not> q x) \<and> q d" by simp
    then show ?thesis by blast
  next
    case False
    with Cons obtain pre post where "ds = pre @ d # post" "\<forall>x\<in>set pre. \<not> q x" "q d"
      by auto
    with False have "a # ds = (a # pre) @ d # post \<and> (\<forall>x\<in>set (a # pre). \<not> q x) \<and> q d"
      by simp
    then show ?thesis by blast
  qed
qed

lemma update_one_no_match: "\<forall>d\<in>set ds. \<not> q d \<Longrightarrow> update_one ds q upd = (0, ds)"
  by (induction ds) auto

lemma update_one_first_match:
  "\<forall>x\<in>set pre. \<not> q x \<Longrightarrow> q d \<Longrightarrow> update_one (pre @ d # post) q upd = (1, pre @ upd d # post)"
  by (induction pre) auto

lemma delete_one_no_match: "\<forall>d\<in>set ds. \<not> q d \<Longrightarrow> delete_one ds q = (0, ds)"
  by (induction ds) auto

lemma delete_one_first_match:
  "\<forall>x\<in>set pre. \<not> q x \<Longrightarrow> q d \<Longrightarrow> delete_one (pre @ d # post) q = (1, pre @ post)"
  by (induction pre) auto

lemma collect_all_Inr: "\<forall>d\<in>set ds. build d = Inr (f d) \<Longrightarrow> collect build ds = Inr (map f ds)"
  by (induction ds) auto

lemma ObjectId_Inl: "ObjectId s = Inl e \<Longrightarrow> e = InvalidId"
  by (auto simp: ObjectId_def split: if_splits)

lemma add_amounts_foldl: "add_amounts acc os = foldl (+) acc (map (\<lambda>d. Order.amount (data d)) os)"
  by (induction os arbitrary: acc) auto

text \<open>Where addition is exact (a monoid), the loop computes the sum of the amounts.\<close>

lemma add_amounts_sum_list:
  fixes acc :: "'f::monoid_add"
  shows "add_amounts acc os = acc + sum_list (map (\<lambda>d. Order.amount (data d)) os)"
  by (induction os arbitrary: acc) (simp_all add: add.assoc)

lemma admin_summary_revenue_sum_list:
  fixes db :: "('f::monoid_add) Database"
  shows "revenue (admin_summary round2 db) =
           round2 (sum_list (map (\<lambda>d. Order.amount (data d))
                     (filter (\<lambda>d. status (data d) = ''paid'') (orders db))))"
  by (simp add: admin_summary_def find_docs_def add_amounts_sum_list Let_def)

lemma Course_valid_with_id: "Course_valid (course_with_id d) = Course_valid (data d)"
  by (simp add: Course_valid_def course_with_id_def Course.extend_def)

lemma Lesson_valid_with_id: "Lesson_valid (lesson_with_id d) = Lesson_valid (data d)"
  by (simp add: Lesson_valid_def lesson_with_id_def Lesson.extend_def)

lemma order_with_id: "Lesson.order (lesson_with_id d) = Lesson.order (data d)"
  by (simp add: lesson_with_id_def Lesson.extend_def)

lemma wf_db_example: "wf_db example_db"
  by (simp add: example_defs wf_db_def Course_valid_def Lesson_valid_def Order_valid_def)

lemma ObjectId_id_a: "ObjectId id_a = Inr (Oid id_a)"
  by (simp add: example_defs ObjectId_def hexdigit_def lower_hex_def)

lemma ObjectId_id_unknown: "ObjectId id_unknown = Inr (Oid ''65a0000000000000000000ff'')"
  by (simp add: example_defs ObjectId_def hexdigit_def lower_hex_def)

lemma ObjectId_malformed: "ObjectId ''not-an-id'' = Inl InvalidId"
  by (simp add: ObjectId_def)

subsection \<open>Stored documents satisfy their schemas\<close>

lemma wf_db_create_course:
  "wf_db db \<Longrightarrow> Course_valid course \<Longrightarrow> wf_db (fst (create_course db new_id course))"
  by (simp add: wf_db_def create_course_def create_document_def)

lemma Course_model_validate_valid: "Course_model_validate body = Inr course \<Longrightarrow> Course_valid course"
  by (auto simp: Course_model_validate_def Course_valid_def split: option.splits if_splits)

lemma wf_db_request_create_course:
  "wf_db db \<Longrightarrow> wf_db (fst (request_create_course db new_id body))"
  by (auto simp: request_create_course_def wf_db_create_course Course_model_validate_valid
      split: sum.splits)

lemma list_all_update_one:
  "list_all P ds \<Longrightarrow> (\<And>d. P d \<Longrightarrow> P (upd d)) \<Longrightarrow> list_all P (snd (update_one ds q upd))"
  by (induction ds) (auto split: prod.splits)

lemma list_all_delete_one: "list_all P ds \<Longrightarrow> list_all P (snd (delete_one ds q))"
  by (induction ds) (auto split: prod.splits)

lemma wf_db_update_course:
  assumes "wf_db db" and "Course_valid course"
  shows "wf_db (fst (update_course db now cid course))"
proof (cases "ObjectId cid")
  case (Inl e)
  with assms(1) show ?thesis by (simp add: update_course_def)
next
  case (Inr obj_id)
  obtain n coll where u:
    "update_one (courses db) (by_id obj_id) (set_update_data course now) = (n, coll)"
    by (cases "update_one (courses db) (by_id obj_id) (set_update_data course now)")
  have "Course_valid (data (set_update_data course now d))" for d :: "'a Course document"
    using assms(2) by (simp add: set_update_data_def Course_valid_def)
  with assms(1)
  have "list_all (\<lambda>d. Course_valid (data d))
          (snd (update_one (courses db) (by_id obj_id) (set_update_data course now)))"
    by (simp add: wf_db_def list_all_update_one)
  with u have "list_all (\<lambda>d. Course_valid (data d)) coll" by simp
  with assms(1) Inr u show ?thesis
    by (simp add: update_course_def wf_db_def)
qed

lemma wf_db_delete_course:
  assumes "wf_db db"
  shows "wf_db (fst (delete_course db cid))"
proof (cases "ObjectId cid")
  case (Inl e)
  with assms show ?thesis by (simp add: delete_course_def)
next
  case (Inr obj_id)
  obtain n coll where u: "delete_one (courses db) (by_id obj_id) = (n, coll)"
    by (cases "delete_one (courses db) (by_id obj_id)")
  from assms
  have "list_all (\<lambda>d. Course_valid (data d)) (snd (delete_one (courses db) (by_id obj_id)))"
    by (simp add: wf_db_def list_all_delete_one)
  with u have "list_all (\<lambda>d. Course_valid (data d)) coll" by simp
  with assms Inr u show ?thesis
    by (simp add: delete_course_def wf_db_def)
qed

lemma wf_db_create_lesson:
  "wf_db db \<Longrightarrow> Lesson_valid lesson \<Longrightarrow> wf_db (fst (create_lesson db new_id cid lesson))"
  by (simp add: wf_db_def create_lesson_def create_document_def Lesson_valid_def)

lemma wf_db_create_order: "wf_db db \<Longrightarrow> wf_db (fst (create_order db new_id order_in))"
  by (auto simp: wf_db_def create_order_def create_document_def Let_def
      split: sum.splits option.splits)

lemma wf_db_request_update_course:
  "wf_db db \<Longrightarrow> wf_db (fst (request_update_course db now cid body))"
  by (auto simp: request_update_course_def wf_db_update_course Course_model_validate_valid
      split: sum.splits)

lemma wf_db_created_lessons: "wf_db created_lessons_db"
  by (simp add: created_lessons_db_def example_defs create_lesson_def create_document_def
      wf_db_def Lesson_valid_def Let_def)

subsection \<open>Orders\<close>

text \<open>
  Claim C1. When the \<open>course_id\<close> of an order request is the identifier of a course of
  the store, whose documents satisfy their schemas, \<open>create_order\<close> appends one order
  document whose \<open>amount\<close> is the stored \<open>price\<close> of that course and whose \<open>status\<close> is
  \<open>paid\<close>, and returns the new identifier with the status \<open>paid\<close>. The model
  \<open>OrderIn\<close> has no field \<open>amount\<close>: whatever \<open>amount\<close> the body of the request
  carries, the outcome of the request is the same.
\<close>

theorem create_order_amount_is_course_price:
  assumes "ObjectId (OrderIn.course_id order_in) = Inr obj_id"
      and "find_one (courses db) (by_id obj_id) = Some course"
      and "wf_db db"
  shows "create_order db new_id order_in =
           (db\<lparr>orders := orders db @
                [\<lparr>oid = new_id,
                  data = \<lparr>Order.course_id = OrderIn.course_id order_in,
                          Order.buyer_name = OrderIn.buyer_name order_in,
                          Order.buyer_email = OrderIn.buyer_email order_in,
                          Order.amount = Course.price (data course),
                          status = ''paid''\<rparr>,
                  updated_at = None\<rparr>]\<rparr>,
            Inr [(''id'', str_oid new_id), (''status'', ''paid'')])
         \<and> request_create_order db new_id (body\<lparr>OrderBody.amount := supplied\<rparr>) =
           request_create_order db new_id body"
proof -
  from assms(2) have "course \<in> set (courses db)"
    by (simp add: find_one_SomeD)
  with assms(3) have "0 \<le> Course.price (data course)"
    by (auto simp: wf_db_def Course_valid_def list_all_iff)
  with assms(1,2) have "create_order db new_id order_in =
           (db\<lparr>orders := orders db @
                [\<lparr>oid = new_id,
                  data = \<lparr>Order.course_id = OrderIn.course_id order_in,
                          Order.buyer_name = OrderIn.buyer_name order_in,
                          Order.buyer_email = OrderIn.buyer_email order_in,
                          Order.amount = Course.price (data course),
                          status = ''paid''\<rparr>,
                  updated_at = None\<rparr>]\<rparr>,
            Inr [(''id'', str_oid new_id), (''status'', ''paid'')])"
    by (simp add: create_order_def Order_valid_def create_document_def Let_def)
  moreover have "request_create_order db new_id (body\<lparr>OrderBody.amount := supplied\<rparr>) =
           request_create_order db new_id body"
    by (simp add: request_create_order_def OrderIn_model_validate_def)
  ultimately show ?thesis by simp
qed

text \<open>An order for the course priced at 49.99 in the example store.\<close>

theorem create_order_amount_is_course_price_witness:
  "ObjectId (OrderIn.course_id order_in_a) = Inr (Oid id_a)
   \<and> find_one (courses example_db) (by_id (Oid id_a)) =
       Some \<lparr>oid = Oid id_a, data = course_a, updated_at = None\<rparr>
   \<and> wf_db example_db
   \<and> Course.price course_a = 4999 / 100
   \<and> create_order example_db (Oid ''65a000000000000000000203'') order_in_a =
       (example_db\<lparr>orders := orders example_db @
           [\<lparr>oid = Oid ''65a000000000000000000203'', data = order_of (4999 / 100),
             updated_at = None\<rparr>]\<rparr>,
        Inr [(''id'', ''65a000000000000000000203''), (''status'', ''paid'')])"
proof -
  have h1: "ObjectId (OrderIn.course_id order_in_a) = Inr (Oid id_a)"
    using ObjectId_id_a by (simp add: order_in_a_def)
  have h2: "find_one (courses example_db) (by_id (Oid id_a)) =
       Some \<lparr>oid = Oid id_a, data = course_a, updated_at = None\<rparr>"
    by (simp add: example_db_def by_id_def)
  have h3: "Course.price course_a = 4999 / 100"
    by (simp add: course_a_def)
  from create_order_amount_is_course_price [OF h1 h2 wf_db_example,
      of "Oid ''65a000000000000000000203''"] h1 h2 h3 wf_db_example
  show ?thesis
    by (simp add: order_in_a_def order_of_def)
qed

text \<open>
  Claim C5, as stated, fails: a \<open>course_id\<close> that is not a well-formed identifier names
  no course of the store, and \<open>create_order\<close> answers it with the exception of the
  identifier parse, not with 404.
\<close>

theorem create_order_malformed_id_counterexample:
  "''not-an-id'' \<notin> set (map (str_oid \<circ> oid) (courses example_db))
   \<and> create_order example_db (Oid ''65a000000000000000000203'')
         (order_in_a\<lparr>OrderIn.course_id := ''not-an-id''\<rparr>) = (example_db, Inl InvalidId)
   \<and> InvalidId \<noteq> HTTPException 404 ''Course not found''
   \<and> status_code InvalidId = 500"
  by (simp add: create_order_def ObjectId_malformed order_in_a_def example_db_def id_a_def id_b_def)

text \<open>
  Claim C5, amended. When the \<open>course_id\<close> of an order request is a well-formed
  identifier that no course document of the store carries, \<open>create_order\<close> fails with
  \<open>HTTPException 404\<close> and leaves the store as it was: no order is persisted.
\<close>

theorem create_order_unknown_course_not_found:
  assumes "ObjectId (OrderIn.course_id order_in) = Inr obj_id"
      and "\<forall>d\<in>set (courses db). oid d \<noteq> obj_id"
  shows "create_order db new_id order_in = (db, Inl (HTTPException 404 ''Course not found''))"
proof -
  from assms(2) have "find_one (courses db) (by_id obj_id) = None"
    by (simp add: find_one_None_iff by_id_def)
  with assms(1) show ?thesis
    by (simp add: create_order_def)
qed

theorem create_order_unknown_course_not_found_witness:
  "ObjectId (OrderIn.course_id (order_in_a\<lparr>OrderIn.course_id := id_unknown\<rparr>)) =
     Inr (Oid ''65a0000000000000000000ff'')
   \<and> Oid ''65a0000000000000000000ff'' \<notin> set (map oid (courses example_db))
   \<and> create_order example_db (Oid ''65a000000000000000000203'')
         (order_in_a\<lparr>OrderIn.course_id := id_unknown\<rparr>) =
       (example_db, Inl (HTTPException 404 ''Course not found''))"
proof -
  have h1: "ObjectId (OrderIn.course_id (order_in_a\<lparr>OrderIn.course_id := id_unknown\<rparr>)) =
     Inr (Oid ''65a0000000000000000000ff'')"
    using ObjectId_id_unknown by simp
  have h2: "\<forall>d\<in>set (courses example_db). oid d \<noteq> Oid ''65a0000000000000000000ff''"
    by (simp add: example_db_def id_a_def id_b_def)
  have h3: "Oid ''65a0000000000000000000ff'' \<notin> set (map oid (courses example_db))"
    by (simp add: example_db_def id_a_def id_b_def)
  from create_order_unknown_course_not_found [OF h1 h2] h1 h3 show ?thesis
    by simp
qed

text \<open>
  Claim C10. When the \<open>course_id\<close> of an order request is not a well-formed identifier,
  \<open>create_order\<close> ends with the exception \<open>InvalidId\<close> of the identifier parse, which no
  handler catches: it is neither the 404 nor the 400 \<open>HTTPException\<close>, it is answered
  with status 500, and the store is left as it was. \<open>get_course\<close>, given the same
  string, raises \<open>HTTPException 400\<close>.
\<close>

theorem create_order_malformed_id_uncaught:
  assumes "ObjectId (OrderIn.course_id order_in) = Inl e"
  shows "create_order db new_id order_in = (db, Inl InvalidId)
         \<and> status_code InvalidId = 500
         \<and> InvalidId \<noteq> HTTPException 404 ''Course not found''
         \<and> InvalidId \<noteq> HTTPException 400 ''Invalid course id''
         \<and> get_course db (OrderIn.course_id order_in) =
             Inl (HTTPException 400 ''Invalid course id'')"
proof -
  from assms have "e = InvalidId" by (rule ObjectId_Inl)
  with assms show ?thesis
    by (simp add: create_order_def get_course_def)
qed

theorem create_order_malformed_id_uncaught_witness:
  "ObjectId (OrderIn.course_id (order_in_a\<lparr>OrderIn.course_id := ''65a0''\<rparr>)) = Inl InvalidId
   \<and> create_order example_db (Oid ''65a000000000000000000203'')
         (order_in_a\<lparr>OrderIn.course_id := ''65a0''\<rparr>) = (example_db, Inl InvalidId)
   \<and> get_course example_db ''65a0'' = Inl (HTTPException 400 ''Invalid course id'')"
proof -
  have h: "ObjectId (OrderIn.course_id (order_in_a\<lparr>OrderIn.course_id := ''65a0''\<rparr>)) =
      Inl InvalidId"
    by (simp add: ObjectId_def)
  from create_order_malformed_id_uncaught [OF h, of example_db "Oid ''65a000000000000000000203''"] h
  show ?thesis by simp
qed

subsection \<open>The admin summary\<close>

text \<open>
  Claim C2. In every state of the store \<open>admin_summary\<close> returns five aggregates: the
  number of courses, the number of courses whose \<open>published\<close> is true, the number of
  lessons, the number of orders whose \<open>status\<close> is \<open>paid\<close>, and \<open>round(\<cdot>, 2)\<close> of the
  amounts of those paid orders added up from \<open>0.0\<close> in the order of retrieval.
\<close>

theorem admin_summary_aggregates:
  "admin_summary round2 db =
     \<lparr>total_courses = int (length (courses db)),
      published_courses = int (length (filter (\<lambda>d. Course.published (data d)) (courses db))),
      total_lessons = int (length (lessons db)),
      total_sales = int (length (filter (\<lambda>d. status (data d) = ''paid'') (orders db))),
      revenue = round2 (foldl (+) 0 (map (\<lambda>d. Order.amount (data d))
                   (filter (\<lambda>d. status (data d) = ''paid'') (orders db))))\<rparr>"
  by (simp add: admin_summary_def count_documents_def find_docs_def add_amounts_foldl Let_def)

text \<open>
  The example store: two courses, one published, three lessons, two paid orders of
  10.00 and 15.50.
\<close>

theorem admin_summary_aggregates_witness:
  "map (Course.published \<circ> data) (courses example_db) = [True, False]
   \<and> length (lessons example_db) = 3
   \<and> map (\<lambda>d. (status (data d), Order.amount (data d))) (orders example_db) =
       [(''paid'', 10), (''paid'', 31 / 2)]
   \<and> admin_summary round2_exact example_db =
       \<lparr>total_courses = 2, published_courses = 1, total_lessons = 3, total_sales = 2,
        revenue = 51 / 2\<rparr>"
  using admin_summary_aggregates [of round2_exact example_db]
  by (simp add: example_defs round2_exact_def)

subsection \<open>Lessons\<close>

text \<open>
  Claim C3. In a store whose documents satisfy their schemas, \<open>list_lessons\<close> returns,
  for every course identifier, the lessons whose \<open>course_id\<close> equals it, each once
  (as a multiset they are the matching documents), in ascending \<open>order\<close>; lessons of
  equal \<open>order\<close> keep the order in which the store returned them.
\<close>

theorem list_lessons_sorted_stable:
  assumes "wf_db db"
  shows "\<exists>result. list_lessons db cid = Inr result
           \<and> mset result =
               mset (map lesson_with_id
                      (filter (\<lambda>d. Lesson.course_id (data d) = cid) (lessons db)))
           \<and> sorted (map Lesson.order result)
           \<and> (\<forall>k. filter (\<lambda>l. Lesson.order l = k) result =
                    map lesson_with_id
                      (filter (\<lambda>d. Lesson.course_id (data d) = cid \<and> Lesson.order (data d) = k)
                         (lessons db)))"
proof -
  let ?docs = "filter (\<lambda>d. Lesson.course_id (data d) = cid) (lessons db)"
  let ?result = "sort_key Lesson.order (map lesson_with_id ?docs)"
  from assms have "\<forall>d\<in>set ?docs. LessonOut_of d = Inr (lesson_with_id d)"
    by (auto simp: wf_db_def list_all_iff LessonOut_of_def Lesson_valid_with_id)
  then have "collect LessonOut_of ?docs = Inr (map lesson_with_id ?docs)"
    by (rule collect_all_Inr)
  then have res: "list_lessons db cid = Inr ?result"
    by (simp add: list_lessons_def get_documents_def)
  have perm: "mset ?result = mset (map lesson_with_id ?docs)"
    by simp
  have srt: "sorted (map Lesson.order ?result)"
    by (rule sorted_sort_key)
  have stable: "filter (\<lambda>l. Lesson.order l = k) ?result =
          map lesson_with_id
            (filter (\<lambda>d. Lesson.course_id (data d) = cid \<and> Lesson.order (data d) = k)
               (lessons db))" for k
  proof -
    have "filter (\<lambda>l. Lesson.order l = k) ?result =
            filter (\<lambda>l. Lesson.order l = k) (map lesson_with_id ?docs)"
      by (rule sort_key_stable)
    also have "\<dots> = map lesson_with_id (filter (\<lambda>d. Lesson.order (data d) = k) ?docs)"
      by (simp add: filter_map comp_def order_with_id)
    also have "filter (\<lambda>d. Lesson.order (data d) = k) ?docs =
            filter (\<lambda>d. Lesson.course_id (data d) = cid \<and> Lesson.order (data d) = k) (lessons db)"
      by (simp add: conj_commute)
    finally show ?thesis .
  qed
  from res perm srt stable show ?thesis by blast
qed

text \<open>Lessons created with the order values 3, 1, 2 come back as 1, 2, 3.\<close>

theorem list_lessons_sorted_stable_witness:
  "wf_db created_lessons_db
   \<and> map (Lesson.order \<circ> data) (lessons created_lessons_db) = [3, 1, 2]
   \<and> (\<exists>result. list_lessons created_lessons_db id_a = Inr result
         \<and> map Lesson.order result = [1, 2, 3]
         \<and> map LessonOut.id' result =
             [''65a000000000000000000102'', ''65a000000000000000000103'',
              ''65a000000000000000000101'']
         \<and> sorted (map Lesson.order result))"
proof -
  from list_lessons_sorted_stable [OF wf_db_created_lessons, of id_a]
  obtain result where r: "list_lessons created_lessons_db id_a = Inr result"
    and s: "sorted (map Lesson.order result)"
    by blast
  have stored: "map (Lesson.order \<circ> data) (lessons created_lessons_db) = [3, 1, 2]"
    by (simp add: created_lessons_db_def example_defs create_lesson_def create_document_def
        Let_def)
  have "map_sum id (map (\<lambda>l. (Lesson.order l, LessonOut.id' l)))
          (list_lessons created_lessons_db id_a) =
        Inr [(1, ''65a000000000000000000102''), (2, ''65a000000000000000000103''),
             (3, ''65a000000000000000000101'')]"
    by (simp add: created_lessons_db_def example_defs create_lesson_def create_document_def
        list_lessons_def get_documents_def LessonOut_of_def lesson_with_id_def Lesson_valid_def
        Lesson.extend_def LessonOut.fields_def Let_def)
  with r have "map (\<lambda>l. (Lesson.order l, LessonOut.id' l)) result =
        [(1, ''65a000000000000000000102''), (2, ''65a000000000000000000103''),
         (3, ''65a000000000000000000101'')]"
    by simp
  then have "map Lesson.order result = [1, 2, 3]
      \<and> map LessonOut.id' result =
             [''65a000000000000000000102'', ''65a000000000000000000103'',
              ''65a000000000000000000101'']"
    by (auto simp: map_eq_Cons_conv)
  with r s have found: "\<exists>result. list_lessons created_lessons_db id_a = Inr result
         \<and> map Lesson.order result = [1, 2, 3]
         \<and> map LessonOut.id' result =
             [''65a000000000000000000102'', ''65a000000000000000000103'',
              ''65a000000000000000000101'']
         \<and> sorted (map Lesson.order result)"
    by (intro exI [of _ result]) simp
  from wf_db_created_lessons stored found show ?thesis
    by (intro conjI)
qed

text \<open>
  Claim C8. \<open>create_lesson\<close> stores the lesson with its \<open>course_id\<close> set to the course
  identifier of the path: the document appended to the collection carries the path's
  identifier, and the \<open>course_id\<close> supplied in the body has no effect on the outcome.
\<close>

theorem create_lesson_course_id_from_path:
  "create_lesson db new_id cid lesson =
     (db\<lparr>lessons := lessons db @
         [\<lparr>oid = new_id, data = lesson\<lparr>Lesson.course_id := cid\<rparr>, updated_at = None\<rparr>]\<rparr>,
      Inr [(''id'', str_oid new_id)])
   \<and> Lesson.course_id (data (last (lessons (fst (create_lesson db new_id cid lesson))))) = cid
   \<and> create_lesson db new_id cid (lesson\<lparr>Lesson.course_id := supplied\<rparr>) =
       create_lesson db new_id cid lesson"
  by (simp add: create_lesson_def create_document_def)

theorem create_lesson_course_id_from_path_witness:
  "Lesson.course_id (lesson_n 3) = ''from the body''
   \<and> map (Lesson.course_id \<circ> data)
        (lessons (fst (create_lesson empty_db (Oid ''65a000000000000000000101'') id_a
                         (lesson_n 3)))) = [id_a]"
  using create_lesson_course_id_from_path
          [of empty_db "Oid ''65a000000000000000000101''" id_a "lesson_n 3"]
  by (simp add: empty_db_def lesson_n_def)

subsection \<open>Courses\<close>

text \<open>
  Claim C4. For a string that is not a well-formed identifier, \<open>get_course\<close>,
  \<open>update_course\<close> and \<open>delete_course\<close> fail with \<open>HTTPException 400\<close> (invalid
  identifier), which is not the 404 of a missing course; for a well-formed identifier
  that no course document carries, the three fail with \<open>HTTPException 404\<close>. The store
  is left as it was in both cases.
\<close>

theorem course_invalid_identifier_or_not_found:
  "(ObjectId cid = Inl e \<longrightarrow>
      get_course db cid = Inl (HTTPException 400 ''Invalid course id'')
      \<and> update_course db now cid course = (db, Inl (HTTPException 400 ''Invalid course id''))
      \<and> delete_course db cid = (db, Inl (HTTPException 400 ''Invalid course id''))
      \<and> HTTPException 400 ''Invalid course id'' \<noteq> HTTPException 404 ''Course not found'')
   \<and> (ObjectId cid = Inr obj_id \<and> (\<forall>d\<in>set (courses db). oid d \<noteq> obj_id) \<longrightarrow>
      get_course db cid = Inl (HTTPException 404 ''Course not found'')
      \<and> update_course db now cid course = (db, Inl (HTTPException 404 ''Course not found''))
      \<and> delete_course db cid = (db, Inl (HTTPException 404 ''Course not found'')))"
proof (intro conjI impI)
  assume "ObjectId cid = Inl e"
  then show "get_course db cid = Inl (HTTPException 400 ''Invalid course id'')"
    and "update_course db now cid course = (db, Inl (HTTPException 400 ''Invalid course id''))"
    and "delete_course db cid = (db, Inl (HTTPException 400 ''Invalid course id''))"
    by (simp_all add: get_course_def update_course_def delete_course_def)
next
  show "HTTPException 400 ''Invalid course id'' \<noteq> HTTPException 404 ''Course not found''"
    by simp
next
  assume a: "ObjectId cid = Inr obj_id \<and> (\<forall>d\<in>set (courses db). oid d \<noteq> obj_id)"
  then have none: "\<forall>d\<in>set (courses db). \<not> by_id obj_id d"
    by (simp add: by_id_def)
  then have "find_one (courses db) (by_id obj_id) = None"
    by (simp add: find_one_None_iff)
  with a show "get_course db cid = Inl (HTTPException 404 ''Course not found'')"
    by (simp add: get_course_def)
  from none have "update_one (courses db) (by_id obj_id) upd = (0, courses db)" for upd
    by (rule update_one_no_match)
  with a show "update_course db now cid course = (db, Inl (HTTPException 404 ''Course not found''))"
    by (simp add: update_course_def)
  from none have "delete_one (courses db) (by_id obj_id) = (0, courses db)"
    by (rule delete_one_no_match)
  with a show "delete_course db cid = (db, Inl (HTTPException 404 ''Course not found''))"
    by (simp add: delete_course_def)
qed

theorem course_invalid_identifier_or_not_found_witness:
  "ObjectId ''not-an-id'' = Inl InvalidId
   \<and> get_course example_db ''not-an-id'' = Inl (HTTPException 400 ''Invalid course id'')
   \<and> update_course example_db 7 ''not-an-id'' course_b =
       (example_db, Inl (HTTPException 400 ''Invalid course id''))
   \<and> delete_course example_db ''not-an-id'' =
       (example_db, Inl (HTTPException 400 ''Invalid course id''))
   \<and> ObjectId id_unknown = Inr (Oid ''65a0000000000000000000ff'')
   \<and> Oid ''65a0000000000000000000ff'' \<notin> set (map oid (courses example_db))
   \<and> get_course example_db id_unknown = Inl (HTTPException 404 ''Course not found'')
   \<and> update_course example_db 7 id_unknown course_b =
       (example_db, Inl (HTTPException 404 ''Course not found''))
   \<and> delete_course example_db id_unknown =
       (example_db, Inl (HTTPException 404 ''Course not found''))"
proof -
  have absent: "\<forall>d\<in>set (courses example_db). oid d \<noteq> Oid ''65a0000000000000000000ff''"
    by (simp add: example_db_def id_a_def id_b_def)
  have absent': "Oid ''65a0000000000000000000ff'' \<notin> set (map oid (courses example_db))"
    by (simp add: example_db_def id_a_def id_b_def)
  from course_invalid_identifier_or_not_found
         [where cid = "''not-an-id''" and e = InvalidId and db = example_db and now = 7
            and course = course_b]
       ObjectId_malformed
  have invalid:
    "get_course example_db ''not-an-id'' = Inl (HTTPException 400 ''Invalid course id'')
     \<and> update_course example_db 7 ''not-an-id'' course_b =
         (example_db, Inl (HTTPException 400 ''Invalid course id''))
     \<and> delete_course example_db ''not-an-id'' =
         (example_db, Inl (HTTPException 400 ''Invalid course id''))"
    by simp
  from course_invalid_identifier_or_not_found
         [where cid = id_unknown and db = example_db and now = 7 and course = course_b
            and obj_id = "Oid ''65a0000000000000000000ff''"]
       ObjectId_id_unknown absent
  have missing:
    "get_course example_db id_unknown = Inl (HTTPException 404 ''Course not found'')
     \<and> update_course example_db 7 id_unknown course_b =
         (example_db, Inl (HTTPException 404 ''Course not found''))
     \<and> delete_course example_db id_unknown =
         (example_db, Inl (HTTPException 404 ''Course not found''))"
    by simp
  from invalid missing ObjectId_malformed ObjectId_id_unknown absent' show ?thesis
    by simp
qed

text \<open>
  Claim C6, as stated, fails: a field that the request does not provide does not keep
  its stored value. The update of the published course of the example store with a
  body that gives only \<open>title\<close> and \<open>price\<close> sets \<open>published\<close> to false and \<open>subtitle\<close>
  to \<open>None\<close>, the defaults of the schema.
\<close>

theorem update_course_unprovided_field_counterexample:
  "CourseBody.published (body_of ''Logic II'' 10) = None
   \<and> CourseBody.subtitle (body_of ''Logic II'' 10) = None
   \<and> map (Course.published \<circ> data) (courses example_db) = [True, False]
   \<and> map (Course.subtitle \<circ> data) (courses example_db) = [Some ''An introduction'', None]
   \<and> snd (request_update_course example_db 7 id_a (body_of ''Logic II'' 10)) =
       Inr [(''status'', ''ok'')]
   \<and> map (Course.published \<circ> data)
        (courses (fst (request_update_course example_db 7 id_a (body_of ''Logic II'' 10)))) =
       [False, False]
   \<and> map (Course.subtitle \<circ> data)
        (courses (fst (request_update_course example_db 7 id_a (body_of ''Logic II'' 10)))) =
       [None, None]"
  by (simp add: request_update_course_def update_course_def Course_model_validate_def
      ObjectId_id_a body_of_def field_or_def example_db_def by_id_def set_update_data_def
      course_a_def course_b_def)

text \<open>
  Claim C6, amended. Course update replaces every field of the schema: for a request
  whose body satisfies the schema and whose identifier is that of a stored course, the
  first document with that identifier gets, for each of the nine fields, the value the
  body provides, or the default of the schema where the body provides none, and
  \<open>updated_at\<close> becomes the time of the call; its \<open>_id\<close>, every other course document,
  and the lessons and orders stay as they were.
\<close>

theorem update_course_replaces_all_fields:
  assumes "Course_model_validate body = Inr course"
      and "ObjectId cid = Inr obj_id"
      and "find_one (courses db) (by_id obj_id) = Some d"
  shows "(\<exists>pre post. courses db = pre @ d # post \<and> (\<forall>x\<in>set pre. oid x \<noteq> obj_id)
            \<and> request_update_course db now cid body =
                (db\<lparr>courses := pre @ \<lparr>oid = oid d, data = course, updated_at = Some now\<rparr> # post\<rparr>,
                 Inr [(''status'', ''ok'')]))
         \<and> CourseBody.title body = Some (Course.title course)
         \<and> CourseBody.price body = Some (Course.price course)
         \<and> Course.subtitle course = field_or None (CourseBody.subtitle body)
         \<and> Course.description course = field_or None (CourseBody.description body)
         \<and> Course.thumbnail_url course = field_or None (CourseBody.thumbnail_url body)
         \<and> Course.category course = field_or None (CourseBody.category body)
         \<and> Course.level course = field_or None (CourseBody.level body)
         \<and> Course.published course = field_or False (CourseBody.published body)
         \<and> Course.tags course = field_or (Some []) (CourseBody.tags body)"
proof -
  from assms(3) obtain pre post where
    split: "courses db = pre @ d # post" "\<forall>x\<in>set pre. \<not> by_id obj_id x" "by_id obj_id d"
    using find_one_split by blast
  have upd: "set_update_data course now d = \<lparr>oid = oid d, data = course, updated_at = Some now\<rparr>"
    by (simp add: set_update_data_def)
  from split have "update_one (courses db) (by_id obj_id) (set_update_data course now) =
      (1, pre @ set_update_data course now d # post)"
    by (simp add: update_one_first_match)
  with assms(1,2) upd have "request_update_course db now cid body =
      (db\<lparr>courses := pre @ \<lparr>oid = oid d, data = course, updated_at = Some now\<rparr> # post\<rparr>,
       Inr [(''status'', ''ok'')])"
    by (simp add: request_update_course_def update_course_def)
  with split have store: "\<exists>pre post. courses db = pre @ d # post \<and> (\<forall>x\<in>set pre. oid x \<noteq> obj_id)
            \<and> request_update_course db now cid body =
                (db\<lparr>courses := pre @ \<lparr>oid = oid d, data = course, updated_at = Some now\<rparr> # post\<rparr>,
                 Inr [(''status'', ''ok'')])"
    unfolding by_id_def by blast
  from assms(1) have fields: "CourseBody.title body = Some (Course.title course)
         \<and> CourseBody.price body = Some (Course.price course)
         \<and> Course.subtitle course = field_or None (CourseBody.subtitle body)
         \<and> Course.description course = field_or None (CourseBody.description body)
         \<and> Course.thumbnail_url course = field_or None (CourseBody.thumbnail_url body)
         \<and> Course.category course = field_or None (CourseBody.category body)
         \<and> Course.level course = field_or None (CourseBody.level body)
         \<and> Course.published course = field_or False (CourseBody.published body)
         \<and> Course.tags course = field_or (Some []) (CourseBody.tags body)"
    by (auto simp: Course_model_validate_def split: option.splits if_splits)
  from store fields show ?thesis by simp
qed

theorem update_course_replaces_all_fields_witness:
  "Course_model_validate (body_of ''Logic II'' 10) =
     Inr \<lparr>Course.title = ''Logic II'', subtitle = None, description = None, price = 10,
          thumbnail_url = None, category = None, level = None, published = False,
          tags = Some []\<rparr>
   \<and> ObjectId id_a = Inr (Oid id_a)
   \<and> find_one (courses example_db) (by_id (Oid id_a)) =
       Some \<lparr>oid = Oid id_a, data = course_a, updated_at = None\<rparr>
   \<and> request_update_course example_db 7 id_a (body_of ''Logic II'' 10) =
       (example_db\<lparr>courses :=
          [\<lparr>oid = Oid id_a,
            data = \<lparr>Course.title = ''Logic II'', subtitle = None, description = None,
                    price = 10, thumbnail_url = None, category = None, level = None,
                    published = False, tags = Some []\<rparr>,
            updated_at = Some 7\<rparr>,
           \<lparr>oid = Oid id_b, data = course_b, updated_at = None\<rparr>]\<rparr>,
        Inr [(''status'', ''ok'')])"
proof -
  have h1: "Course_model_validate (body_of ''Logic II'' 10) =
     Inr \<lparr>Course.title = ''Logic II'', subtitle = None, description = None, price = 10,
          thumbnail_url = None, category = None, level = None, published = False,
          tags = Some []\<rparr>"
    by (simp add: Course_model_validate_def body_of_def field_or_def)
  have h3: "find_one (courses example_db) (by_id (Oid id_a)) =
       Some \<lparr>oid = Oid id_a, data = course_a, updated_at = None\<rparr>"
    by (simp add: example_db_def by_id_def)
  from update_course_replaces_all_fields [OF h1 ObjectId_id_a h3, of 7]
  obtain pre post where
    c: "courses example_db = pre @ \<lparr>oid = Oid id_a, data = course_a, updated_at = None\<rparr> # post"
    and n: "\<forall>x\<in>set pre. oid x \<noteq> Oid id_a"
    and u: "request_update_course example_db 7 id_a (body_of ''Logic II'' 10) =
       (example_db\<lparr>courses := pre @
          \<lparr>oid = Oid id_a,
            data = \<lparr>Course.title = ''Logic II'', subtitle = None, description = None,
                    price = 10, thumbnail_url = None, category = None, level = None,
                    published = False, tags = Some []\<rparr>,
            updated_at = Some 7\<rparr> # post\<rparr>,
        Inr [(''status'', ''ok'')])"
    by auto
  have "pre = []"
  proof (cases pre)
    case Nil
    then show ?thesis .
  next
    case (Cons x xs)
    with c have "x = \<lparr>oid = Oid id_a, data = course_a, updated_at = None\<rparr>"
      by (simp add: example_db_def)
    with n Cons show ?thesis by simp
  qed
  with c have "post = [\<lparr>oid = Oid id_b, data = course_b, updated_at = None\<rparr>]"
    by (simp add: example_db_def)
  with \<open>pre = []\<close> u h1 ObjectId_id_a h3 show ?thesis by simp
qed

text \<open>
  Claim C7. In a store whose documents satisfy their schemas, \<open>list_courses\<close> with the
  filter \<open>published = b\<close> returns the courses whose \<open>published\<close> equals \<open>b\<close>, all of
  them and no other, in the order of the store; without the filter it returns all the
  courses, which are those of the two publish states together.
\<close>

theorem list_courses_published_filter:
  assumes "wf_db db"
  shows "list_courses db (Some b) =
           Inr (map course_with_id (filter (\<lambda>d. Course.published (data d) = b) (courses db)))
         \<and> list_courses db None = Inr (map course_with_id (courses db))
         \<and> (\<exists>t f a. list_courses db (Some True) = Inr t \<and> list_courses db (Some False) = Inr f
               \<and> list_courses db None = Inr a \<and> mset a = mset t + mset f)"
proof -
  from assms have ok: "\<forall>d\<in>set (courses db). CourseOut_of d = Inr (course_with_id d)"
    by (simp add: wf_db_def list_all_iff CourseOut_of_def Course_valid_with_id)
  have some: "list_courses db (Some p) =
      Inr (map course_with_id (filter (\<lambda>d. Course.published (data d) = p) (courses db)))" for p
  proof -
    from ok
    have "\<forall>d\<in>set (filter (\<lambda>d. Course.published (data d) = p) (courses db)).
            CourseOut_of d = Inr (course_with_id d)"
      by simp
    then show ?thesis
      by (simp add: list_courses_def get_documents_def collect_all_Inr)
  qed
  from ok have none: "list_courses db None = Inr (map course_with_id (courses db))"
    by (simp add: list_courses_def get_documents_def collect_all_Inr)
  have "mset (map course_with_id xs) =
          mset (map course_with_id (filter (\<lambda>d. Course.published (data d) = True) xs)) +
          mset (map course_with_id (filter (\<lambda>d. Course.published (data d) = False) xs))"
    for xs :: "'a Course document list"
    by (induction xs) auto
  with some [of True] some [of False] none
  have "\<exists>t f a. list_courses db (Some True) = Inr t \<and> list_courses db (Some False) = Inr f
               \<and> list_courses db None = Inr a \<and> mset a = mset t + mset f"
    by blast
  with some [of b] none show ?thesis by blast
qed

theorem list_courses_published_filter_witness:
  "wf_db example_db
   \<and> list_courses example_db (Some True) =
       Inr [course_with_id \<lparr>oid = Oid id_a, data = course_a, updated_at = None\<rparr>]
   \<and> list_courses example_db None =
       Inr [course_with_id \<lparr>oid = Oid id_a, data = course_a, updated_at = None\<rparr>,
            course_with_id \<lparr>oid = Oid id_b, data = course_b, updated_at = None\<rparr>]"
proof -
  have "filter (\<lambda>d. Course.published (data d) = True) (courses example_db) =
          [\<lparr>oid = Oid id_a, data = course_a, updated_at = None\<rparr>]"
    by (simp add: example_db_def course_a_def course_b_def)
  moreover have "courses example_db =
          [\<lparr>oid = Oid id_a, data = course_a, updated_at = None\<rparr>,
           \<lparr>oid = Oid id_b, data = course_b, updated_at = None\<rparr>]"
    by (simp add: example_db_def)
  ultimately show ?thesis
    using list_courses_published_filter [OF wf_db_example, of True] wf_db_example
    by simp
qed

text \<open>
  Claim C9, as stated, fails: the schema puts no length constraint on \<open>title\<close>, and a
  request whose \<open>title\<close> is the empty string creates a course.
\<close>

theorem create_course_empty_title_counterexample:
  "CourseBody.title (body_of '''' 10) = Some ''''
   \<and> request_create_course empty_db (Oid id_a) (body_of '''' 10) =
       (empty_db\<lparr>courses :=
          [\<lparr>oid = Oid id_a,
            data = \<lparr>Course.title = '''', subtitle = None, description = None, price = 10,
                    thumbnail_url = None, category = None, level = None, published = False,
                    tags = Some []\<rparr>,
            updated_at = None\<rparr>]\<rparr>,
        Inr [(''id'', id_a)])"
  by (simp add: request_create_course_def create_course_def create_document_def
      Course_model_validate_def body_of_def field_or_def empty_db_def)

text \<open>
  Claim C9, amended. For a course-creation request \<open>title\<close> is required, the empty
  string being a title like any other, and \<open>price\<close> is required and must be \<open>\<ge> 0\<close>. A
  request that gives no \<open>title\<close>, no \<open>price\<close> or a \<open>price\<close> that is not \<open>\<ge> 0\<close> fails with
  the validation error of status 422 and the store is left as it was; a request that
  gives both, with \<open>price \<ge> 0\<close>, appends one course document with that title and price.
\<close>

theorem create_course_schema_validation:
  "(CourseBody.title body = None \<or> CourseBody.price body = None
      \<or> (\<exists>p. CourseBody.price body = Some p \<and> \<not> 0 \<le> p) \<longrightarrow>
      request_create_course db new_id body = (db, Inl RequestValidationError)
      \<and> status_code RequestValidationError = 422)
   \<and> (CourseBody.title body = Some t \<and> CourseBody.price body = Some p \<and> 0 \<le> p \<longrightarrow>
      (\<exists>course. request_create_course db new_id body =
          (db\<lparr>courses := courses db @ [\<lparr>oid = new_id, data = course, updated_at = None\<rparr>]\<rparr>,
           Inr [(''id'', str_oid new_id)])
        \<and> Course.title course = t \<and> Course.price course = p))"
  by (auto simp: request_create_course_def create_course_def create_document_def
      Course_model_validate_def split: option.splits)

theorem create_course_schema_validation_witness:
  "CourseBody.price (body_of ''Logic'' (- 1)) = Some (- 1) \<and> \<not> (0::rat) \<le> - 1
   \<and> request_create_course example_db (Oid ''65a0000000000000000000c3'') (body_of ''Logic'' (- 1)) =
       (example_db, Inl RequestValidationError)
   \<and> CourseBody.title (body_of ''Logic'' 10) = Some ''Logic''
   \<and> CourseBody.price (body_of ''Logic'' 10) = Some 10 \<and> (0::rat) \<le> 10
   \<and> (\<exists>course.
         request_create_course example_db (Oid ''65a0000000000000000000c3'') (body_of ''Logic'' 10) =
           (example_db\<lparr>courses := courses example_db @
               [\<lparr>oid = Oid ''65a0000000000000000000c3'', data = course, updated_at = None\<rparr>]\<rparr>,
            Inr [(''id'', ''65a0000000000000000000c3'')])
         \<and> Course.title course = ''Logic'' \<and> Course.price course = 10)"
proof -
  have r: "CourseBody.price (body_of ''Logic'' (- 1)) = Some (- 1)"
    and a: "CourseBody.title (body_of ''Logic'' 10) = Some ''Logic''"
           "CourseBody.price (body_of ''Logic'' 10) = Some 10"
    by (simp_all add: body_of_def)
  from create_course_schema_validation
         [where body = "body_of ''Logic'' (- 1)" and db = example_db
            and new_id = "Oid ''65a0000000000000000000c3''"]
       create_course_schema_validation
         [where body = "body_of ''Logic'' 10" and db = example_db and t = "''Logic''" and p = 10
            and new_id = "Oid ''65a0000000000000000000c3''"]
       r a
  show ?thesis by simp
qed

end
